theory Spec2Isabelle
  imports
    Complex_Main
    "HOL-Library.AList"
    "HOL-Library.Char_ord"
    "HOL-Library.List_Lexorder"
    "HOL-Library.Option_ord"
    "HOL-Library.Product_Lexorder"
begin

section \<open>Aircraft-tracking ingestion: fetcher, loader and query service\<close>

text \<open>
  A shallow embedding of \<^verbatim>\<open>bdi_api/s1/exercise.py\<close> and \<^verbatim>\<open>bdi_api/s4/exercise.py\<close>.
  The file system, the S3 bucket, the remote HTTP source and the DuckDB store are explicit
  values passed in and returned. Every \<^verbatim>\<open>try/except\<close> of the source is a branch: the
  condition under which the guarded call raises is an input of the model (a predicate on
  file names, a flag, or the number of the failing statement).
\<close>

subsection \<open>Strings and file names\<close>

type_synonym bytes = string

definition endswith :: "string \<Rightarrow> string \<Rightarrow> bool" where
  \<comment> \<open>Python's \<^verbatim>\<open>s.endswith(suf)\<close>.\<close>
  "endswith s suf = (length suf \<le> length s \<and> drop (length s - length suf) s = suf)"

definition startswith :: "string \<Rightarrow> string \<Rightarrow> bool" where
  "startswith s pre = (take (length pre) s = pre)"

definition fmt_02d :: "nat \<Rightarrow> string" where
  \<comment> \<open>\<^verbatim>\<open>f"{hour:02d}"\<close> for the values of \<^verbatim>\<open>range(24)\<close> (below 100).\<close>
  "fmt_02d hour = [''0123456789'' ! (hour div 10), ''0123456789'' ! (hour mod 10)]"

definition filenames :: "string list" where
  \<comment> \<open>\<^verbatim>\<open>[f"{hour:02d}0000Z.json.gz" for hour in range(24)]\<close>\<close>
  "filenames = map (\<lambda>hour. fmt_02d hour @ ''0000Z.json.gz'') [0..<24]"

subsection \<open>Fetcher: \<^verbatim>\<open>download_data\<close>\<close>

text \<open>
  \<^verbatim>\<open>requests.get(file_url, timeout=30)\<close> either returns a response with a status code
  and a body, or raises (timeout, transport error).
\<close>

datatype http_result = Response int bytes | RequestException

text \<open>
  The download loop of both modules. \<open>get\<close> is the remote source, \<open>put\<close> stores a body
  under a file name (\<^verbatim>\<open>open(...).write\<close> in s1, \<^verbatim>\<open>put_object\<close> in s4) and
  \<open>put_raises\<close> tells for which file names that store operation raises; the
  \<^verbatim>\<open>except Exception: continue\<close> then skips the file without counting it.
  \<^verbatim>\<open>
    files_downloaded = 0
    for filename in filenames:
        if files_downloaded >= file_limit:
            break
        file_url = f"{settings.source_url}/2023/11/01/{filename}"
        try:
            response = requests.get(file_url, timeout=30)
            if response.status_code == 200:
                ... store response.content under filename ...
                files_downloaded += 1
        except Exception:
            continue
  \<close>
\<close>

definition file_url :: "string \<Rightarrow> string \<Rightarrow> string" where
  "file_url source_url filename = source_url @ ''/2023/11/01/'' @ filename"

fun download_loop ::
  "(string \<Rightarrow> http_result) \<Rightarrow> (string \<Rightarrow> bool) \<Rightarrow> (string \<Rightarrow> bytes \<Rightarrow> 'st \<Rightarrow> 'st) \<Rightarrow>
   string \<Rightarrow> int \<Rightarrow> string list \<Rightarrow> int \<times> 'st \<Rightarrow> int \<times> 'st" where
  "download_loop get put_raises put source_url file_limit [] (files_downloaded, st) =
     (files_downloaded, st)"
| "download_loop get put_raises put source_url file_limit (filename # rest) (files_downloaded, st) =
     (if files_downloaded \<ge> file_limit then (files_downloaded, st)
      else
        (case get (file_url source_url filename) of
           RequestException \<Rightarrow>
             download_loop get put_raises put source_url file_limit rest (files_downloaded, st)
         | Response status_code content \<Rightarrow>
             if status_code = 200 then
               (if put_raises filename then
                  download_loop get put_raises put source_url file_limit rest (files_downloaded, st)
                else
                  download_loop get put_raises put source_url file_limit rest
                    (files_downloaded + 1, put filename content st))
             else
               download_loop get put_raises put source_url file_limit rest (files_downloaded, st)))"

text \<open>
  s1: the partition is the directory \<^verbatim>\<open>raw_dir/day=20231101\<close>, a list of
  (file name, content) pairs for its regular files (the content type is a parameter:
  bytes for the fetcher, the parsed document for the loader). Cleaning removes every file whose
  \<^verbatim>\<open>os.remove\<close> does not raise.
\<close>

type_synonym 'a directory = "(string \<times> 'a) list"

record download_env =
  source_url :: string
  requests_get :: "string \<Rightarrow> http_result"
  remove_raises :: "string \<Rightarrow> bool"
  write_raises :: "string \<Rightarrow> bool"

definition clean_dir :: "download_env \<Rightarrow> bytes directory \<Rightarrow> bytes directory" where
  "clean_dir env dir = filter (\<lambda>(filename, _). remove_raises env filename) dir"

definition write_file :: "string \<Rightarrow> bytes \<Rightarrow> bytes directory \<Rightarrow> bytes directory" where
  "write_file filename content dir = AList.update filename content dir"

definition download_run :: "download_env \<Rightarrow> int \<Rightarrow> bytes directory \<Rightarrow> int \<times> bytes directory" where
  \<comment> \<open>The body of \<^verbatim>\<open>download_data\<close> up to the \<^verbatim>\<open>return\<close>: the final value of the local
      counter \<^verbatim>\<open>files_downloaded\<close> and the directory.\<close>
  "download_run env file_limit dir =
     download_loop (requests_get env) (write_raises env) write_file (source_url env)
       file_limit filenames (0, clean_dir env dir)"

definition download_data :: "download_env \<Rightarrow> int \<Rightarrow> bytes directory \<Rightarrow> string \<times> bytes directory" where
  \<comment> \<open>\<^verbatim>\<open>return "OK"\<close>\<close>
  "download_data env file_limit dir = (''OK'', snd (download_run env file_limit dir))"

text \<open>
  s4: the partition is the key prefix \<^verbatim>\<open>raw/day=20231101/\<close> of a bucket, a list of
  (key, body) pairs. \<^verbatim>\<open>list_objects_v2\<close> returns at most 1000 keys in key order; the
  whole cleaning step sits in one \<^verbatim>\<open>try/except Exception: pass\<close>.
\<close>

type_synonym 'a bucket = "(string \<times> 'a) list"

record s3_env =
  s3_source_url :: string
  s3_requests_get :: "string \<Rightarrow> http_result"
  list_objects_raises :: bool
  delete_objects_raises :: bool
  put_object_raises :: "string \<Rightarrow> bool"

definition s3_prefix :: string where
  "s3_prefix = ''raw/day=20231101/''"

definition list_objects_v2 :: "'a bucket \<Rightarrow> string \<Rightarrow> string list" where
  "list_objects_v2 b pre = take 1000 (sort (filter (\<lambda>k. startswith k pre) (map fst b)))"

definition s4_clean :: "s3_env \<Rightarrow> bytes bucket \<Rightarrow> bytes bucket" where
  "s4_clean env b =
     (if list_objects_raises env then b
      else
        (let objects_to_delete = list_objects_v2 b s3_prefix in
         if objects_to_delete = [] then b
         else if delete_objects_raises env then b
         else filter (\<lambda>(k, _). k \<notin> set objects_to_delete) b))"

definition put_object :: "string \<Rightarrow> bytes \<Rightarrow> bytes bucket \<Rightarrow> bytes bucket" where
  "put_object filename body b = AList.update (s3_prefix @ filename) body b"

definition s4_download_run :: "s3_env \<Rightarrow> int \<Rightarrow> bytes bucket \<Rightarrow> int \<times> bytes bucket" where
  "s4_download_run env file_limit b =
     download_loop (s3_requests_get env) (put_object_raises env) put_object (s3_source_url env)
       file_limit filenames (0, s4_clean env b)"

definition s4_download_data :: "s3_env \<Rightarrow> int \<Rightarrow> bytes bucket \<Rightarrow> string \<times> bytes bucket" where
  "s4_download_data env file_limit b = (''OK'', snd (s4_download_run env file_limit b))"




subsection \<open>Raw documents\<close>

text \<open>
  A raw file is either not a JSON document at all, or a document
  \<^verbatim>\<open>{"now": ..., "aircraft": [...]}\<close> whose observations carry the keys the loader
  extracts. A field is \<open>None\<close> when the key is absent or \<^verbatim>\<open>null\<close>. \<^verbatim>\<open>alt_baro\<close> is an
  integer or a text such as \<^verbatim>\<open>"ground"\<close>. The feed's \<^verbatim>\<open>emergency\<close> key is part of the
  observation (the test fixtures carry it), though the loader never extracts it.
  Documents are taken as typed this way: the struct type that \<^verbatim>\<open>read_json\<close> infers for
  the array elements is assumed to contain the seven extracted keys, as in the fixtures,
  which "include all expected fields".
\<close>

datatype alt_value = AltInt int | AltStr string

record observation =
  ac_hex :: "string option"
  ac_r :: "string option"
  ac_t :: "string option"
  ac_lat :: "real option"
  ac_lon :: "real option"
  ac_alt_baro :: "alt_value option"
  ac_gs :: "real option"
  ac_emergency :: "string option"

record document =
  doc_now :: "int option"
  doc_aircraft :: "observation list option"

datatype raw_file = Malformed | Json document

subsection \<open>The derived store\<close>

record expanded_row =
  raw_doc_timestamp :: "int option"
  raw_hex :: "string option"
  raw_r :: "string option"
  raw_t :: "string option"
  raw_lat :: "real option"
  raw_lon :: "real option"
  raw_alt_baro :: "alt_value option"
  raw_gs :: "real option"
  raw_emergency :: "string option"

record aircraft_row =
  air_icao :: "string option"
  air_registration :: "string option"
  air_type :: "string option"

record position_row =
  pos_icao :: "string option"
  pos_timestamp :: "int option"
  pos_lat :: "real option"
  pos_lon :: "real option"
  altitude_baro :: "int option"
  ground_speed :: "real option"
  pos_emergency :: "string option"

text \<open>
  The database file \<^verbatim>\<open>aircraft.db\<close>: absent, present but not openable, or a DuckDB
  database with its tables (\<open>None\<close>: the table does not exist) and index names.
\<close>

record database =
  tbl_aircraft :: "aircraft_row list option"
  tbl_positions :: "position_row list option"
  indexes :: "string list"

datatype store = NoFile | Corrupt | Db database

text \<open>An open connection: the session's temporary table and the database.\<close>

record connection =
  tmp_raw_data_expanded :: "expanded_row list option"
  conn_db :: database

datatype error = InvalidInputException | BinderException | CatalogException
  | IOException | OutOfRangeException

definition empty_db :: database where
  "empty_db = \<lparr>tbl_aircraft = None, tbl_positions = None, indexes = []\<rparr>"

definition connect :: "store \<Rightarrow> error + connection" where
  \<comment> \<open>\<^verbatim>\<open>duckdb.connect(db_path)\<close>: creates the file when it is absent.\<close>
  "connect st =
     (case st of
        NoFile \<Rightarrow> Inr \<lparr>tmp_raw_data_expanded = None, conn_db = empty_db\<rparr>
      | Corrupt \<Rightarrow> Inl IOException
      | Db db \<Rightarrow> Inr \<lparr>tmp_raw_data_expanded = None, conn_db = db\<rparr>)"

subsection \<open>SQL building blocks\<close>

primrec non_null :: "'a option list \<Rightarrow> 'a list" where
  "non_null [] = []"
| "non_null (v # vs) = (case v of None \<Rightarrow> non_null vs | Some x \<Rightarrow> x # non_null vs)"

definition sql_max :: "'a::linorder option list \<Rightarrow> 'a option" where
  \<comment> \<open>\<^verbatim>\<open>MAX(col)\<close>: the greatest non-null value, NULL when there is none.\<close>
  "sql_max vs = (case non_null vs of [] \<Rightarrow> None | x # xs \<Rightarrow> Some (foldl max x xs))"

definition bool_or :: "bool option list \<Rightarrow> bool option" where
  \<comment> \<open>\<^verbatim>\<open>BOOL_OR(col)\<close>: NULL when there is no non-null input.\<close>
  "bool_or vs = (case non_null vs of [] \<Rightarrow> None | x # xs \<Rightarrow> Some (foldl (\<or>) x xs))"

definition limit_offset :: "int \<Rightarrow> int \<Rightarrow> 'a list \<Rightarrow> error + 'a list" where
  \<comment> \<open>\<^verbatim>\<open>LIMIT ? OFFSET ?\<close>; a negative bound is rejected by the engine.\<close>
  "limit_offset limit_n offset_n rows =
     (if limit_n < 0 \<or> offset_n < 0 then Inl OutOfRangeException
      else Inr (take (nat limit_n) (drop (nat offset_n) rows)))"

text \<open>
  \<^verbatim>\<open>TRY_CAST(alt_baro AS INTEGER)\<close>: the value when it is an integer of 32 bits, NULL
  otherwise. For a text the decimal integer literals are read (optional sign, digits,
  surrounding blanks).
\<close>

definition is_digit :: "char \<Rightarrow> bool" where
  "is_digit c = (c \<in> set ''0123456789'')"

definition digit_value :: "char \<Rightarrow> int" where
  "digit_value c = int (of_char c) - 48"

definition strip :: "string \<Rightarrow> string" where
  "strip s = rev (dropWhile (\<lambda>c. c = CHR '' '') (rev (dropWhile (\<lambda>c. c = CHR '' '') s)))"

definition parse_integer :: "string \<Rightarrow> int option" where
  "parse_integer s =
     (let body = strip s;
          negative = (body \<noteq> [] \<and> hd body = CHR ''-'');
          digits = (if body \<noteq> [] \<and> (hd body = CHR ''-'' \<or> hd body = CHR ''+'') then tl body else body)
      in if digits \<noteq> [] \<and> list_all is_digit digits
         then Some ((if negative then - 1 else 1) * foldl (\<lambda>a c. 10 * a + digit_value c) 0 digits)
         else None)"

definition in_int32 :: "int \<Rightarrow> bool" where
  "in_int32 n = (- 2147483648 \<le> n \<and> n \<le> 2147483647)"

definition try_cast_integer :: "alt_value option \<Rightarrow> int option" where
  "try_cast_integer v =
     (case v of
        None \<Rightarrow> None
      | Some (AltInt n) \<Rightarrow> if in_int32 n then Some n else None
      | Some (AltStr s) \<Rightarrow>
          (case parse_integer s of
             None \<Rightarrow> None
           | Some n \<Rightarrow> if in_int32 n then Some n else None))"

subsection \<open>Loader: the statements of \<^verbatim>\<open>prepare_data\<close>\<close>

text \<open>
  \<^verbatim>\<open>read_json(pattern, format='auto', ...)\<close> reads every file matching the pattern in one
  query and raises on a file that is not JSON. The column \<^verbatim>\<open>json.aircraft\<close> exists only
  when some file carries the array; otherwise the statement does not bind.
\<close>

definition read_json :: "raw_file list \<Rightarrow> error + document list" where
  "read_json files =
     (if Malformed \<in> set files then Inl InvalidInputException
      else
        (let docs = concat (map (\<lambda>f. case f of Malformed \<Rightarrow> [] | Json d \<Rightarrow> [d]) files) in
         if list_all (\<lambda>d. doc_aircraft d = None) docs then Inl BinderException
         else Inr docs))"

definition expand_row :: "document \<Rightarrow> observation \<Rightarrow> expanded_row" where
  \<comment> \<open>The select list of \<^verbatim>\<open>raw_data_expanded\<close>; \<^verbatim>\<open>CAST(NULL AS VARCHAR) as emergency\<close>.\<close>
  "expand_row d a =
     \<lparr>raw_doc_timestamp = doc_now d,
      raw_hex = ac_hex a,
      raw_r = ac_r a,
      raw_t = ac_t a,
      raw_lat = ac_lat a,
      raw_lon = ac_lon a,
      raw_alt_baro = ac_alt_baro a,
      raw_gs = ac_gs a,
      raw_emergency = None\<rparr>"

definition unnest_aircraft :: "document list \<Rightarrow> expanded_row list" where
  \<comment> \<open>\<^verbatim>\<open>SELECT json, unnest(json.aircraft) as aircraft\<close>: no row for a NULL or empty array.\<close>
  "unnest_aircraft docs =
     concat (map (\<lambda>d. case doc_aircraft d of None \<Rightarrow> [] | Some obs \<Rightarrow> map (expand_row d) obs) docs)"

definition aircraft_select :: "expanded_row list \<Rightarrow> aircraft_row list" where
  \<comment> \<open>\<^verbatim>\<open>SELECT hex, MAX(r) FILTER (WHERE r IS NOT NULL), MAX(t) FILTER (WHERE t IS NOT NULL)
      FROM raw_data_expanded WHERE hex IS NOT NULL GROUP BY hex ORDER BY hex\<close>\<close>
  "aircraft_select rows =
     (let kept = filter (\<lambda>x. raw_hex x \<noteq> None) rows in
      map (\<lambda>h.
            (let grp = filter (\<lambda>x. raw_hex x = Some h) kept in
             \<lparr>air_icao = Some h,
              air_registration = sql_max (filter (\<lambda>v. v \<noteq> None) (map raw_r grp)),
              air_type = sql_max (filter (\<lambda>v. v \<noteq> None) (map raw_t grp))\<rparr>))
          (sort (remdups (non_null (map raw_hex kept)))))"

definition positions_where :: "expanded_row \<Rightarrow> bool" where
  "positions_where x =
     (raw_hex x \<noteq> None \<and> raw_lat x \<noteq> None \<and> raw_lon x \<noteq> None \<and> raw_doc_timestamp x \<noteq> None)"

definition position_of :: "expanded_row \<Rightarrow> position_row" where
  "position_of x =
     \<lparr>pos_icao = raw_hex x,
      pos_timestamp = raw_doc_timestamp x,
      pos_lat = raw_lat x,
      pos_lon = raw_lon x,
      altitude_baro = try_cast_integer (raw_alt_baro x),
      ground_speed = raw_gs x,
      pos_emergency = raw_emergency x\<rparr>"

definition positions_select :: "expanded_row list \<Rightarrow> position_row list" where
  \<comment> \<open>\<^verbatim>\<open>SELECT ... FROM raw_data_expanded WHERE ... ORDER BY hex, doc_timestamp\<close>\<close>
  "positions_select rows =
     map position_of
       (sort_key (\<lambda>x. (raw_hex x, raw_doc_timestamp x)) (filter positions_where rows))"

type_synonym statement = "connection \<Rightarrow> error + connection"

definition create_raw_data_expanded :: "raw_file list \<Rightarrow> statement" where
  "create_raw_data_expanded files conn =
     (case read_json files of
        Inl e \<Rightarrow> Inl e
      | Inr docs \<Rightarrow>
          if tmp_raw_data_expanded conn \<noteq> None then Inl CatalogException
          else Inr (conn\<lparr>tmp_raw_data_expanded := Some (unnest_aircraft docs)\<rparr>))"

definition create_aircraft :: statement where
  "create_aircraft conn =
     (case tmp_raw_data_expanded conn of
        None \<Rightarrow> Inl CatalogException
      | Some rows \<Rightarrow>
          if tbl_aircraft (conn_db conn) \<noteq> None then Inl CatalogException
          else Inr (conn\<lparr>conn_db := (conn_db conn)\<lparr>tbl_aircraft := Some (aircraft_select rows)\<rparr>\<rparr>))"

definition create_positions :: statement where
  "create_positions conn =
     (case tmp_raw_data_expanded conn of
        None \<Rightarrow> Inl CatalogException
      | Some rows \<Rightarrow>
          if tbl_positions (conn_db conn) \<noteq> None then Inl CatalogException
          else Inr (conn\<lparr>conn_db := (conn_db conn)\<lparr>tbl_positions := Some (positions_select rows)\<rparr>\<rparr>))"

definition table_exists :: "database \<Rightarrow> string \<Rightarrow> bool" where
  "table_exists db name =
     (if name = ''aircraft'' then tbl_aircraft db \<noteq> None
      else if name = ''positions'' then tbl_positions db \<noteq> None
      else False)"

definition create_index :: "string \<Rightarrow> string \<Rightarrow> statement" where
  \<comment> \<open>\<^verbatim>\<open>CREATE INDEX name ON table(column)\<close>\<close>
  "create_index name table conn =
     (if \<not> table_exists (conn_db conn) table \<or> name \<in> set (indexes (conn_db conn))
      then Inl CatalogException
      else Inr (conn\<lparr>conn_db := (conn_db conn)\<lparr>indexes := indexes (conn_db conn) @ [name]\<rparr>\<rparr>))"

text \<open>
  The \<^verbatim>\<open>try\<close> block runs six \<^verbatim>\<open>conn.execute\<close> calls, each committed on its own. A
  statement raises either by its own semantics or because the store fails under it
  (\<open>failing_statement\<close>, counted from 0). The \<^verbatim>\<open>except\<close> closes the connection and
  re-raises: what the earlier statements wrote stays in the file.
\<close>

record prepare_faults =
  db_remove_raises :: bool
  failing_statement :: "nat option"

fun run_statements :: "prepare_faults \<Rightarrow> nat \<Rightarrow> statement list \<Rightarrow> connection \<Rightarrow> error option \<times> connection" where
  "run_statements faults k [] conn = (None, conn)"
| "run_statements faults k (stmt # rest) conn =
     (if failing_statement faults = Some k then (Some IOException, conn)
      else
        (case stmt conn of
           Inl e \<Rightarrow> (Some e, conn)
         | Inr conn' \<Rightarrow> run_statements faults (Suc k) rest conn'))"

definition statements :: "raw_file list \<Rightarrow> statement list" where
  "statements files =
     [create_raw_data_expanded files,
      create_aircraft,
      create_positions,
      create_index ''idx_aircraft_icao'' ''aircraft'',
      create_index ''idx_positions_icao'' ''positions'',
      create_index ''idx_positions_timestamp'' ''positions'']"

definition load_files :: "prepare_faults \<Rightarrow> raw_file list \<Rightarrow> store \<Rightarrow> (error + string) \<times> store" where
  \<comment> \<open>From \<^verbatim>\<open>conn = duckdb.connect(db_path)\<close> to the end of \<^verbatim>\<open>prepare_data\<close>.\<close>
  "load_files faults files st =
     (case connect st of
        Inl e \<Rightarrow> (Inl e, st)
      | Inr conn \<Rightarrow>
          (case run_statements faults 0 (statements files) conn of
             (Some e, conn') \<Rightarrow> (Inl e, Db (conn_db conn'))
           | (None, conn') \<Rightarrow> (Inr ''OK'', Db (conn_db conn'))))"

definition remove_db :: "prepare_faults \<Rightarrow> store \<Rightarrow> store" where
  \<comment> \<open>\<^verbatim>\<open>if os.path.exists(db_path): try: os.remove(db_path) except (...): pass\<close>\<close>
  "remove_db faults st =
     (if st \<noteq> NoFile then (if db_remove_raises faults then st else NoFile) else st)"

definition json_files :: "'a directory \<Rightarrow> 'a directory" where
  \<comment> \<open>The files the pattern \<^verbatim>\<open>*.json.gz\<close> matches, in name order.\<close>
  "json_files listing = filter (\<lambda>(f, _). endswith f ''.json.gz'') (sort_key fst listing)"

definition prepare_data ::
  "prepare_faults \<Rightarrow> raw_file directory option \<Rightarrow> store \<Rightarrow> (error + string) \<times> store" where
  \<comment> \<open>s1; \<open>raw_dir = None\<close>: the directory does not exist.\<close>
  "prepare_data faults raw_dir st =
     (let st1 = remove_db faults st in
      case raw_dir of
        None \<Rightarrow> (Inr ''OK'', st1)
      | Some listing \<Rightarrow>
          if json_files listing = [] then (Inr ''OK'', st1)
          else load_files faults (map snd (json_files listing)) st1)"

text \<open>
  s4 first copies the objects under the prefix into a temporary directory, skipping keys
  that do not end in \<^verbatim>\<open>.json.gz\<close> and objects whose download raises, then runs the same
  statements on that directory.
\<close>

record s4_prepare_env =
  s4_faults :: prepare_faults
  s4_list_raises :: bool
  download_file_raises :: "string \<Rightarrow> bool"

definition basename :: "string \<Rightarrow> string" where
  "basename p = rev (takeWhile (\<lambda>c. c \<noteq> CHR ''/'') (rev p))"

definition download_objects ::
  "s4_prepare_env \<Rightarrow> 'a bucket \<Rightarrow> string list \<Rightarrow> 'a directory" where
  "download_objects env b keys =
     foldl (\<lambda>temp_dir s3_key.
              if s3_key = s3_prefix \<or> \<not> endswith s3_key ''.json.gz'' then temp_dir
              else if download_file_raises env s3_key then temp_dir
              else (case map_of b s3_key of
                      None \<Rightarrow> temp_dir
                    | Some body \<Rightarrow> AList.update (basename s3_key) body temp_dir))
       [] keys"

definition s4_prepare_data ::
  "s4_prepare_env \<Rightarrow> raw_file bucket \<Rightarrow> store \<Rightarrow> (error + string) \<times> store" where
  "s4_prepare_data env b st =
     (let st1 = remove_db (s4_faults env) st in
      if s4_list_raises env then (Inr ''OK'', st1)
      else
        (let contents = list_objects_v2 b s3_prefix in
         if contents = [] then (Inr ''OK'', st1)
         else
           (let temp_dir = download_objects env b contents in
            if json_files temp_dir = [] then (Inr ''OK'', st1)
            else load_files (s4_faults env) (map snd (json_files temp_dir)) st1)))"

subsection \<open>Query service\<close>

text \<open>
  Each endpoint returns at once when the database file does not exist and wraps the rest
  in \<^verbatim>\<open>try/except Exception\<close>. The result type keeps the error branch so that "does not
  raise" is a statement about the value.
\<close>

definition connect_read_only :: "store \<Rightarrow> error + database" where
  "connect_read_only st =
     (case st of NoFile \<Rightarrow> Inl IOException | Corrupt \<Rightarrow> Inl IOException | Db db \<Rightarrow> Inr db)"

definition list_aircraft_query :: "store \<Rightarrow> int \<Rightarrow> int \<Rightarrow> error + aircraft_row list" where
  \<comment> \<open>The \<^verbatim>\<open>try\<close> body of \<^verbatim>\<open>list_aircraft\<close>:
      \<^verbatim>\<open>SELECT icao, registration, type FROM aircraft WHERE icao IS NOT NULL
      ORDER BY icao ASC LIMIT ? OFFSET ?\<close>\<close>
  "list_aircraft_query st num_results page =
     (case connect_read_only st of
        Inl e \<Rightarrow> Inl e
      | Inr db \<Rightarrow>
          (let offset = page * num_results in
           case tbl_aircraft db of
             None \<Rightarrow> Inl CatalogException
           | Some rows \<Rightarrow>
               limit_offset num_results offset
                 (sort_key air_icao (filter (\<lambda>row. air_icao row \<noteq> None) rows))))"

definition list_aircraft :: "store \<Rightarrow> int \<Rightarrow> int \<Rightarrow> error + aircraft_row list" where
  "list_aircraft st num_results page =
     (if st = NoFile then Inr []
      else
        (case list_aircraft_query st num_results page of
           Inl e \<Rightarrow> Inr []
         | Inr result \<Rightarrow> Inr result))"

record position_dict =
  dict_timestamp :: "int option"
  dict_lat :: "real option"
  dict_lon :: "real option"

definition get_aircraft_position_query ::
  "store \<Rightarrow> string \<Rightarrow> int \<Rightarrow> int \<Rightarrow> error + position_dict list" where
  \<comment> \<open>\<^verbatim>\<open>SELECT timestamp, lat, lon FROM positions WHERE icao = ? AND lat IS NOT NULL
      AND lon IS NOT NULL ORDER BY timestamp ASC LIMIT ? OFFSET ?\<close>\<close>
  "get_aircraft_position_query st icao num_results page =
     (case connect_read_only st of
        Inl e \<Rightarrow> Inl e
      | Inr db \<Rightarrow>
          (let offset = page * num_results in
           case tbl_positions db of
             None \<Rightarrow> Inl CatalogException
           | Some rows \<Rightarrow>
               (case limit_offset num_results offset
                       (sort_key pos_timestamp
                          (filter (\<lambda>p. pos_icao p = Some icao \<and> pos_lat p \<noteq> None \<and> pos_lon p \<noteq> None)
                             rows)) of
                  Inl e \<Rightarrow> Inl e
                | Inr result \<Rightarrow>
                    Inr (map (\<lambda>p. \<lparr>dict_timestamp = pos_timestamp p, dict_lat = pos_lat p,
                                    dict_lon = pos_lon p\<rparr>) result))))"

definition get_aircraft_position ::
  "store \<Rightarrow> string \<Rightarrow> int \<Rightarrow> int \<Rightarrow> error + position_dict list" where
  "get_aircraft_position st icao num_results page =
     (if st = NoFile then Inr []
      else
        (case get_aircraft_position_query st icao num_results page of
           Inl e \<Rightarrow> Inr []
         | Inr result \<Rightarrow> Inr result))"

record statistics =
  max_altitude_baro :: "int option"
  max_ground_speed :: "real option"
  had_emergency :: bool

definition default_statistics :: statistics where
  "default_statistics = \<lparr>max_altitude_baro = None, max_ground_speed = None, had_emergency = False\<rparr>"

definition emergency_set :: "position_row \<Rightarrow> bool option" where
  \<comment> \<open>\<^verbatim>\<open>emergency IS NOT NULL AND emergency != ''\<close>: false, not NULL, on a NULL flag.\<close>
  "emergency_set p =
     (case pos_emergency p of None \<Rightarrow> Some False | Some e \<Rightarrow> Some (e \<noteq> ''''))"

definition get_aircraft_statistics_query ::
  "store \<Rightarrow> string \<Rightarrow> error + (int option \<times> real option \<times> bool option)" where
  \<comment> \<open>\<^verbatim>\<open>SELECT MAX(altitude_baro), MAX(ground_speed), BOOL_OR(...) FROM positions
      WHERE icao = ?\<close>: an aggregate without GROUP BY always yields one row.\<close>
  "get_aircraft_statistics_query st icao =
     (case connect_read_only st of
        Inl e \<Rightarrow> Inl e
      | Inr db \<Rightarrow>
          (case tbl_positions db of
             None \<Rightarrow> Inl CatalogException
           | Some rows \<Rightarrow>
               (let sel = filter (\<lambda>p. pos_icao p = Some icao) rows in
                Inr (sql_max (map altitude_baro sel),
                     sql_max (map ground_speed sel),
                     bool_or (map emergency_set sel)))))"

definition get_aircraft_statistics :: "store \<Rightarrow> string \<Rightarrow> error + statistics" where
  "get_aircraft_statistics st icao =
     (if st = NoFile then Inr default_statistics
      else
        (case get_aircraft_statistics_query st icao of
           Inl e \<Rightarrow> Inr default_statistics
         | Inr (m_alt, m_gs, emerg) \<Rightarrow>
             Inr \<lparr>max_altitude_baro = m_alt,
                  max_ground_speed = m_gs,
                  had_emergency = (case emerg of None \<Rightarrow> False | Some b \<Rightarrow> b)\<rparr>))"

subsection \<open>Reading the store and the raw partition\<close>

text \<open>
  The rows of a relation as a reader finds them (none when the file or the table is
  missing), the observations of a list of raw files paired with their document, and the
  raw files each module hands to the statements.
\<close>

definition aircraft_relation :: "store \<Rightarrow> aircraft_row list" where
  "aircraft_relation st =
     (case st of Db db \<Rightarrow> (case tbl_aircraft db of None \<Rightarrow> [] | Some rows \<Rightarrow> rows) | _ \<Rightarrow> [])"

definition positions_relation :: "store \<Rightarrow> position_row list" where
  "positions_relation st =
     (case st of Db db \<Rightarrow> (case tbl_positions db of None \<Rightarrow> [] | Some rows \<Rightarrow> rows) | _ \<Rightarrow> [])"

definition observations :: "raw_file list \<Rightarrow> (document \<times> observation) list" where
  "observations files =
     concat (map (\<lambda>f. case f of
                        Malformed \<Rightarrow> []
                      | Json d \<Rightarrow> (case doc_aircraft d of None \<Rightarrow> [] | Some obs \<Rightarrow> map (Pair d) obs))
             files)"

definition expanded :: "raw_file list \<Rightarrow> expanded_row list" where
  "expanded files = map (\<lambda>(d, a). expand_row d a) (observations files)"

definition s1_loaded :: "raw_file directory option \<Rightarrow> raw_file list" where
  "s1_loaded raw_dir = (case raw_dir of None \<Rightarrow> [] | Some listing \<Rightarrow> map snd (json_files listing))"

definition s4_loaded :: "s4_prepare_env \<Rightarrow> raw_file bucket \<Rightarrow> raw_file list" where
  "s4_loaded env b =
     (if s4_list_raises env then []
      else map snd (json_files (download_objects env b (list_objects_v2 b s3_prefix))))"

definition index_names :: "string list" where
  "index_names = [''idx_aircraft_icao'', ''idx_positions_icao'', ''idx_positions_timestamp'']"

definition built_db :: "raw_file list \<Rightarrow> nat \<Rightarrow> database" where
  \<comment> \<open>A fresh database after the first \<open>k\<close> statements of the \<^verbatim>\<open>try\<close> block.\<close>
  "built_db files k =
     \<lparr>tbl_aircraft = (if 2 \<le> k then Some (aircraft_select (expanded files)) else None),
      tbl_positions = (if 3 \<le> k then Some (positions_select (expanded files)) else None),
      indexes = take (k - 3) index_names\<rparr>"

definition all_or_nothing :: "store \<Rightarrow> bool" where
  \<comment> \<open>Both relations with their three indexes, or neither relation and no index.\<close>
  "all_or_nothing st =
     (case st of
        Db db \<Rightarrow>
          (tbl_aircraft db \<noteq> None \<and> tbl_positions db \<noteq> None \<and> set index_names \<subseteq> set (indexes db))
          \<or> (tbl_aircraft db = None \<and> tbl_positions db = None \<and> indexes db = [])
      | _ \<Rightarrow> True)"




subsection \<open>Concrete inputs\<close>

definition env_all :: download_env where
  \<comment> \<open>Every hourly file is there and every write succeeds.\<close>
  "env_all =
     \<lparr>source_url = ''http://source'',
      requests_get = (\<lambda>u. Response 200 ''{}''),
      remove_raises = (\<lambda>f. False),
      write_raises = (\<lambda>f. False)\<rparr>"



definition no_faults :: prepare_faults where
  "no_faults = \<lparr>db_remove_raises = False, failing_statement = None\<rparr>"

definition s4_no_faults :: s4_prepare_env where
  "s4_no_faults = \<lparr>s4_faults = no_faults, s4_list_raises = False, download_file_raises = (\<lambda>k. False)\<rparr>"

definition obs_flying :: observation where
  \<comment> \<open>The observation of the test fixtures.\<close>
  "obs_flying =
     \<lparr>ac_hex = Some ''abc123'', ac_r = Some ''N123AB'', ac_t = Some ''B738'',
      ac_lat = Some (407 / 10), ac_lon = Some (- 74), ac_alt_baro = Some (AltInt 35000),
      ac_gs = Some 450, ac_emergency = None\<rparr>"

definition obs_ground :: observation where
  "obs_ground =
     \<lparr>ac_hex = Some ''abc000'', ac_r = None, ac_t = None,
      ac_lat = Some 1, ac_lon = Some 2, ac_alt_baro = Some (AltStr ''ground''),
      ac_gs = None, ac_emergency = Some ''7700''\<rparr>"

definition obs_no_lat :: observation where
  "obs_no_lat =
     \<lparr>ac_hex = Some ''abc000'', ac_r = Some ''R'', ac_t = None,
      ac_lat = None, ac_lon = Some 2, ac_alt_baro = None,
      ac_gs = None, ac_emergency = None\<rparr>"

definition doc_three :: document where
  "doc_three = \<lparr>doc_now = Some 1698796800, doc_aircraft = Some [obs_flying, obs_ground, obs_no_lat]\<rparr>"


definition dir_one :: "raw_file directory" where
  "dir_one = [(''000000Z.json.gz'', Json doc_three)]"



definition bucket_one :: "raw_file bucket" where
  "bucket_one = [(''raw/day=20231101/000000Z.json.gz'', Json doc_three)]"

definition db_one :: database where
  \<comment> \<open>What loading \<open>dir_one\<close> builds.\<close>
  "db_one =
     \<lparr>tbl_aircraft = Some
        [\<lparr>air_icao = Some ''abc000'', air_registration = Some ''R'', air_type = None\<rparr>,
         \<lparr>air_icao = Some ''abc123'', air_registration = Some ''N123AB'', air_type = Some ''B738''\<rparr>],
      tbl_positions = Some
        [\<lparr>pos_icao = Some ''abc000'', pos_timestamp = Some 1698796800, pos_lat = Some 1,
          pos_lon = Some 2, altitude_baro = None, ground_speed = None, pos_emergency = None\<rparr>,
         \<lparr>pos_icao = Some ''abc123'', pos_timestamp = Some 1698796800, pos_lat = Some (407 / 10),
          pos_lon = Some (- 74), altitude_baro = Some 35000, ground_speed = Some 450,
          pos_emergency = None\<rparr>],
      indexes = [''idx_aircraft_icao'', ''idx_positions_icao'', ''idx_positions_timestamp'']\<rparr>"

definition fault_at_positions :: prepare_faults where
  \<comment> \<open>The store fails under the third statement, \<^verbatim>\<open>CREATE TABLE positions\<close>.\<close>
  "fault_at_positions = \<lparr>db_remove_raises = False, failing_statement = Some 2\<rparr>"

definition db_aircraft_only :: database where
  "db_aircraft_only =
     \<lparr>tbl_aircraft = Some
        [\<lparr>air_icao = Some ''abc000'', air_registration = Some ''R'', air_type = None\<rparr>,
         \<lparr>air_icao = Some ''abc123'', air_registration = Some ''N123AB'', air_type = Some ''B738''\<rparr>],
      tbl_positions = None,
      indexes = []\<rparr>"

definition db_emergency :: database where
  \<comment> \<open>A database, not built by the loader, with one Position row carrying a flag.\<close>
  "db_emergency =
     \<lparr>tbl_aircraft = Some [\<lparr>air_icao = Some ''abc000'', air_registration = None, air_type = None\<rparr>],
      tbl_positions = Some
        [\<lparr>pos_icao = Some ''abc000'', pos_timestamp = Some 1698796800, pos_lat = Some 1,
          pos_lon = Some 2, altitude_baro = None, ground_speed = None, pos_emergency = Some ''7700''\<rparr>],
      indexes = []\<rparr>"

section \<open>Auxiliary facts\<close>

subsection \<open>The download loop\<close>




section \<open>Fetcher\<close>




text \<open>
  C6 (amended). For every partition and file_limit the fetcher endpoint, in s1 and in s4,
  returns the text OK; the number of files written is the final value of its local
  counter, which is not part of the return value.
\<close>

theorem fetcher_returns_ok:
  "download_data env file_limit dir = (''OK'', snd (download_run env file_limit dir))
   \<and> s4_download_data senv file_limit b = (''OK'', snd (s4_download_run senv file_limit b))"
  by (simp add: download_data_def s4_download_data_def)

text \<open>
  C6 as stated fails: with two files written the endpoint returns the same text as with
  none written.
\<close>

theorem fetcher_return_counterexample:
  "fst (download_data env_all 2 []) = ''OK''
   \<and> fst (download_data env_all 0 []) = ''OK''
   \<and> download_run env_all 2 [] = (2, [(''000000Z.json.gz'', ''{}''), (''010000Z.json.gz'', ''{}'')])
   \<and> download_run env_all 0 [] = (0, [])"
  by code_simp

section \<open>Auxiliary facts about the loader\<close>

subsection \<open>Which files are loaded\<close>

lemma json_files_Nil: "json_files [] = []"
  by (simp add: json_files_def)

lemma download_objects_Nil: "download_objects env b [] = []"
  by (simp add: download_objects_def)

lemma prepare_data_cases:
  "prepare_data faults raw_dir st =
     (if s1_loaded raw_dir = [] then (Inr ''OK'', remove_db faults st)
      else load_files faults (s1_loaded raw_dir) (remove_db faults st))"
  by (simp add: prepare_data_def s1_loaded_def Let_def split: option.splits)

lemma s4_prepare_data_cases:
  "s4_prepare_data env b st =
     (if s4_loaded env b = [] then (Inr ''OK'', remove_db (s4_faults env) st)
      else load_files (s4_faults env) (s4_loaded env b) (remove_db (s4_faults env) st))"
  by (simp add: s4_prepare_data_def s4_loaded_def Let_def json_files_Nil download_objects_Nil)

lemma remove_db_ok: "\<not> db_remove_raises faults \<Longrightarrow> remove_db faults st = NoFile"
  by (simp add: remove_db_def)

subsection \<open>Reading and unnesting\<close>

lemma unnest_observations:
  "unnest_aircraft (concat (map (\<lambda>f. case f of Malformed \<Rightarrow> [] | Json d \<Rightarrow> [d]) files)) = expanded files"
  by (induction files)
     (auto simp: unnest_aircraft_def expanded_def observations_def split: raw_file.splits option.splits)

lemma read_json_unnest:
  "read_json files = Inr docs \<Longrightarrow> unnest_aircraft docs = expanded files"
  using unnest_observations[of files]
  by (auto simp: read_json_def Let_def split: if_splits)

lemma read_json_not_Nil: "read_json files = Inr docs \<Longrightarrow> files \<noteq> []"
  by (auto simp: read_json_def)





subsection \<open>The statements on a fresh database\<close>


lemma run_fresh_fault:
  assumes "read_json files = Inr docs" "failing_statement faults = Some k" "k < 6"
  shows "\<exists>tmp. run_statements faults 0 (statements files) \<lparr>tmp_raw_data_expanded = None, conn_db = empty_db\<rparr>
         = (Some IOException, \<lparr>tmp_raw_data_expanded = tmp, conn_db = built_db files k\<rparr>)"
proof -
  note u = read_json_unnest[OF assms(1)]
  from \<open>k < 6\<close> consider "k = 0" | "k = 1" | "k = 2" | "k = 3" | "k = 4" | "k = 5" by linarith
  then show ?thesis
  proof cases
    case 1 then show ?thesis using assms
      by (simp add: statements_def built_db_def empty_db_def)
  next
    case 2 then show ?thesis using assms
      by (simp add: statements_def create_raw_data_expanded_def built_db_def empty_db_def)
  next
    case 3 then show ?thesis using assms u
      by (simp add: statements_def create_raw_data_expanded_def create_aircraft_def built_db_def empty_db_def)
  next
    case 4 then show ?thesis using assms u
      by (simp add: statements_def create_raw_data_expanded_def create_aircraft_def create_positions_def
          built_db_def empty_db_def)
  next
    case 5 then show ?thesis using assms u
      by (simp add: statements_def create_raw_data_expanded_def create_aircraft_def create_positions_def
          create_index_def table_exists_def built_db_def empty_db_def index_names_def)
  next
    case 6 then show ?thesis using assms u
      by (simp add: statements_def create_raw_data_expanded_def create_aircraft_def create_positions_def
          create_index_def table_exists_def built_db_def empty_db_def index_names_def)
  qed
qed



lemma load_files_fresh_fault:
  assumes "read_json files = Inr docs" "failing_statement faults = Some k" "k < 6"
  shows "load_files faults files NoFile = (Inl IOException, Db (built_db files k))"
  using run_fresh_fault[OF assms] by (auto simp: load_files_def connect_def)


lemma all_or_nothing_built:
  assumes "k < 6"
  shows "all_or_nothing (Db (built_db files k)) = (k \<le> 1)"
proof -
  from assms consider "k = 0" | "k = 1" | "k = 2" | "k = 3" | "k = 4" | "k = 5" by linarith
  then show ?thesis
    by cases (simp_all add: all_or_nothing_def built_db_def index_names_def)
qed

subsection \<open>A completed load, from any database\<close>

lemma index_keeps_tables:
  "create_index n t c = Inr c' \<Longrightarrow> tbl_aircraft (conn_db c') = tbl_aircraft (conn_db c) \<and>
     tbl_positions (conn_db c') = tbl_positions (conn_db c)"
  by (auto simp: create_index_def split: if_splits)

lemma run_ok_tables:
  assumes "run_statements faults 0 (statements files) c = (None, c')"
  shows "\<exists>docs. read_json files = Inr docs
           \<and> tbl_aircraft (conn_db c') = Some (aircraft_select (unnest_aircraft docs))
           \<and> tbl_positions (conn_db c') = Some (positions_select (unnest_aircraft docs))"
proof -
  from assms obtain c1 where s0: "create_raw_data_expanded files c = Inr c1"
    and r1: "run_statements faults 1 (tl (statements files)) c1 = (None, c')"
    by (auto simp: statements_def split: if_splits sum.splits)
  from s0 obtain docs where d: "read_json files = Inr docs"
    and c1: "c1 = c\<lparr>tmp_raw_data_expanded := Some (unnest_aircraft docs)\<rparr>"
    by (auto simp: create_raw_data_expanded_def split: sum.splits if_splits)
  from r1 obtain c2 where s1: "create_aircraft c1 = Inr c2"
    and r2: "run_statements faults 2 (tl (tl (statements files))) c2 = (None, c')"
    by (auto simp: statements_def numeral_2_eq_2 split: if_splits sum.splits)
  from s1 c1 have c2: "c2 = c1\<lparr>conn_db := (conn_db c1)\<lparr>tbl_aircraft := Some (aircraft_select (unnest_aircraft docs))\<rparr>\<rparr>"
    by (auto simp: create_aircraft_def split: if_splits)
  from r2 obtain c3 where s2: "create_positions c2 = Inr c3"
    and r3: "run_statements faults 3 (tl (tl (tl (statements files)))) c3 = (None, c')"
    by (auto simp: statements_def numeral_3_eq_3 split: if_splits sum.splits)
  from s2 c2 c1 have c3: "c3 = c2\<lparr>conn_db := (conn_db c2)\<lparr>tbl_positions := Some (positions_select (unnest_aircraft docs))\<rparr>\<rparr>"
    by (auto simp: create_positions_def split: if_splits)
  from r3 obtain c4 c5 where
    i1: "create_index ''idx_aircraft_icao'' ''aircraft'' c3 = Inr c4" and
    i2: "create_index ''idx_positions_icao'' ''positions'' c4 = Inr c5" and
    i3: "create_index ''idx_positions_timestamp'' ''positions'' c5 = Inr c'"
    by (auto simp: statements_def split: if_splits sum.splits)
  have "tbl_aircraft (conn_db c') = tbl_aircraft (conn_db c3)" "tbl_positions (conn_db c') = tbl_positions (conn_db c3)"
    using index_keeps_tables[OF i1] index_keeps_tables[OF i2] index_keeps_tables[OF i3] by simp_all
  then show ?thesis using d c3 c2 by simp
qed

lemma load_files_ok_relations:
  assumes "load_files faults files st = (Inr ''OK'', st')"
  shows "aircraft_relation st' = aircraft_select (expanded files)
       \<and> positions_relation st' = positions_select (expanded files)"
proof -
  from assms obtain c c' where c: "connect st = Inr c"
    and r: "run_statements faults 0 (statements files) c = (None, c')" and st': "st' = Db (conn_db c')"
    by (auto simp: load_files_def split: sum.splits prod.splits option.splits)
  from run_ok_tables[OF r] obtain docs where "read_json files = Inr docs"
    "tbl_aircraft (conn_db c') = Some (aircraft_select (unnest_aircraft docs))"
    "tbl_positions (conn_db c') = Some (positions_select (unnest_aircraft docs))" by blast
  then show ?thesis using st' read_json_unnest[of files docs]
    by (simp add: aircraft_relation_def positions_relation_def)
qed

lemma loaded_relations:
  assumes "(if files = [] then (Inr ''OK'', remove_db faults st)
            else load_files faults files (remove_db faults st)) = (Inr ''OK'', st')"
    and "\<not> db_remove_raises faults"
  shows "aircraft_relation st' = aircraft_select (expanded files)
       \<and> positions_relation st' = positions_select (expanded files)"
proof (cases "files = []")
  case True
  with assms have "st' = NoFile" by (auto simp: remove_db_def)
  with True show ?thesis
    by (simp add: aircraft_relation_def positions_relation_def expanded_def observations_def
          aircraft_select_def positions_select_def)
next
  case False
  with assms(1) show ?thesis using load_files_ok_relations by simp
qed

subsection \<open>The two select statements\<close>

lemma set_non_null: "set (non_null vs) = {x. Some x \<in> set vs}"
  by (induction vs) (auto split: option.splits)

lemma aircraft_select_icao:
  "map air_icao (aircraft_select rows) =
     map Some (sort (remdups (non_null (map raw_hex (filter (\<lambda>x. raw_hex x \<noteq> None) rows)))))"
  by (simp add: aircraft_select_def Let_def comp_def)

lemma aircraft_select_icao_set:
  "set (map air_icao (aircraft_select rows)) = {v \<in> set (map raw_hex rows). v \<noteq> None}"
  unfolding aircraft_select_icao by (force simp: set_non_null image_iff)

lemma aircraft_select_distinct: "distinct (map air_icao (aircraft_select rows))"
  unfolding aircraft_select_icao by (simp add: distinct_map)

lemma expanded_hex: "map raw_hex (expanded files) = map (\<lambda>(d, a). ac_hex a) (observations files)"
  by (simp add: expanded_def expand_row_def case_prod_beta comp_def)

lemma set_positions_select:
  "set (positions_select rows) = position_of ` {x \<in> set rows. positions_where x}"
  by (auto simp: positions_select_def)

lemma length_positions_select:
  "length (positions_select rows) = length (filter positions_where rows)"
  by (simp add: positions_select_def)

lemma position_of_where:
  "position_of x = position_of y \<Longrightarrow> positions_where y \<Longrightarrow> positions_where x"
  by (auto simp: position_of_def positions_where_def)

lemma position_in_select:
  "x \<in> set rows \<Longrightarrow> (position_of x \<in> set (positions_select rows)) = positions_where x"
  unfolding set_positions_select using position_of_where by blast

lemma positions_where_expand:
  "positions_where (expand_row d a) =
     (ac_hex a \<noteq> None \<and> ac_lat a \<noteq> None \<and> ac_lon a \<noteq> None \<and> doc_now d \<noteq> None)"
  by (simp add: positions_where_def expand_row_def)

section \<open>Loader\<close>

text \<open>
  C1. After a load that completes (s1 or s4, the old database file having been removed),
  the icao values of the Aircraft relation are exactly the non-null \<^verbatim>\<open>hex\<close> values of
  the observations of the loaded documents, and no icao occurs in two rows.
\<close>

theorem aircraft_icao_exact:
  assumes "\<not> db_remove_raises faults"
  shows "(prepare_data faults raw_dir st = (Inr ''OK'', st') \<longrightarrow>
            set (map air_icao (aircraft_relation st'))
              = {v \<in> set (map (\<lambda>(d, a). ac_hex a) (observations (s1_loaded raw_dir))). v \<noteq> None}
            \<and> distinct (map air_icao (aircraft_relation st')))
       \<and> (s4_faults env = faults \<longrightarrow> s4_prepare_data env b st = (Inr ''OK'', st'') \<longrightarrow>
            set (map air_icao (aircraft_relation st''))
              = {v \<in> set (map (\<lambda>(d, a). ac_hex a) (observations (s4_loaded env b))). v \<noteq> None}
            \<and> distinct (map air_icao (aircraft_relation st'')))"
proof (intro conjI impI)
  assume "prepare_data faults raw_dir st = (Inr ''OK'', st')"
  then have r: "aircraft_relation st' = aircraft_select (expanded (s1_loaded raw_dir))"
    using loaded_relations[of "s1_loaded raw_dir" faults st st'] assms
    by (simp add: prepare_data_cases)
  show "set (map air_icao (aircraft_relation st'))
          = {v \<in> set (map (\<lambda>(d, a). ac_hex a) (observations (s1_loaded raw_dir))). v \<noteq> None}"
    unfolding r aircraft_select_icao_set expanded_hex ..
  show "distinct (map air_icao (aircraft_relation st'))"
    unfolding r by (rule aircraft_select_distinct)
next
  assume e: "s4_faults env = faults" and p: "s4_prepare_data env b st = (Inr ''OK'', st'')"
  have "(if s4_loaded env b = [] then (Inr ''OK'', remove_db faults st)
         else load_files faults (s4_loaded env b) (remove_db faults st)) = (Inr ''OK'', st'')"
    using p unfolding s4_prepare_data_cases e .
  from loaded_relations[OF this assms]
  have r: "aircraft_relation st'' = aircraft_select (expanded (s4_loaded env b))" by simp
  show "set (map air_icao (aircraft_relation st''))
          = {v \<in> set (map (\<lambda>(d, a). ac_hex a) (observations (s4_loaded env b))). v \<noteq> None}"
    unfolding r aircraft_select_icao_set expanded_hex ..
  show "distinct (map air_icao (aircraft_relation st''))"
    unfolding r by (rule aircraft_select_distinct)
qed

theorem aircraft_icao_exact_witness:
  "\<not> db_remove_raises no_faults
   \<and> prepare_data no_faults (Some dir_one) Corrupt = (Inr ''OK'', Db db_one)
   \<and> s4_faults s4_no_faults = no_faults
   \<and> s4_prepare_data s4_no_faults bucket_one Corrupt = (Inr ''OK'', Db db_one)
   \<and> set (map air_icao (aircraft_relation (Db db_one)))
        = {v \<in> set (map (\<lambda>(d, a). ac_hex a) (observations (s1_loaded (Some dir_one)))). v \<noteq> None}
   \<and> set (map air_icao (aircraft_relation (Db db_one)))
        = {v \<in> set (map (\<lambda>(d, a). ac_hex a) (observations (s4_loaded s4_no_faults bucket_one))). v \<noteq> None}
   \<and> map air_icao (aircraft_relation (Db db_one)) = [Some ''abc000'', Some ''abc123'']"
proof -
  have h: "\<not> db_remove_raises no_faults" by (simp add: no_faults_def)
  have p1: "prepare_data no_faults (Some dir_one) Corrupt = (Inr ''OK'', Db db_one)" by code_simp
  have e: "s4_faults s4_no_faults = no_faults" by (simp add: s4_no_faults_def)
  have p4: "s4_prepare_data s4_no_faults bucket_one Corrupt = (Inr ''OK'', Db db_one)" by code_simp
  have m: "map air_icao (aircraft_relation (Db db_one)) = [Some ''abc000'', Some ''abc123'']"
    by (simp add: aircraft_relation_def db_one_def)
  from aircraft_icao_exact [OF h, of "Some dir_one" Corrupt "Db db_one" s4_no_faults bucket_one "Db db_one"]
    h p1 e p4 m
  show ?thesis by blast
qed

text \<open>
  C2. After a load that completes (s1 or s4, the old database file having been removed),
  an observation of a loaded document has its Position row among the rows of the Position
  relation exactly when its icao, latitude and longitude and the document's timestamp are
  all present; the relation has one row per such observation and no other row; and no row
  has a null latitude or longitude.
\<close>

theorem position_rows_exact:
  assumes "\<not> db_remove_raises faults"
    and "prepare_data faults raw_dir st = (Inr ''OK'', st') \<and> files = s1_loaded raw_dir
         \<or> s4_faults env = faults \<and> s4_prepare_data env b st = (Inr ''OK'', st') \<and> files = s4_loaded env b"
  shows "(\<forall>(d, a) \<in> set (observations files).
            (position_of (expand_row d a) \<in> set (positions_relation st'))
              = (ac_hex a \<noteq> None \<and> ac_lat a \<noteq> None \<and> ac_lon a \<noteq> None \<and> doc_now d \<noteq> None))
       \<and> length (positions_relation st')
           = length (filter (\<lambda>(d, a). ac_hex a \<noteq> None \<and> ac_lat a \<noteq> None \<and> ac_lon a \<noteq> None
                                        \<and> doc_now d \<noteq> None) (observations files))
       \<and> (\<forall>p \<in> set (positions_relation st').
            (\<exists>(d, a) \<in> set (observations files). p = position_of (expand_row d a))
            \<and> pos_lat p \<noteq> None \<and> pos_lon p \<noteq> None)"
proof -
  have "(if files = [] then (Inr ''OK'', remove_db faults st)
         else load_files faults files (remove_db faults st)) = (Inr ''OK'', st')"
    using assms(2) by (auto simp: prepare_data_cases s4_prepare_data_cases)
  from loaded_relations[OF this assms(1)]
  have r: "positions_relation st' = positions_select (expanded files)" by simp
  have a: "\<forall>(d, a) \<in> set (observations files).
            (position_of (expand_row d a) \<in> set (positions_relation st'))
              = (ac_hex a \<noteq> None \<and> ac_lat a \<noteq> None \<and> ac_lon a \<noteq> None \<and> doc_now d \<noteq> None)"
  proof (clarify)
    fix d a assume "(d, a) \<in> set (observations files)"
    then have "expand_row d a \<in> set (expanded files)" by (force simp: expanded_def)
    from position_in_select[OF this] show
      "(position_of (expand_row d a) \<in> set (positions_relation st'))
              = (ac_hex a \<noteq> None \<and> ac_lat a \<noteq> None \<and> ac_lon a \<noteq> None \<and> doc_now d \<noteq> None)"
      by (simp add: r positions_where_expand)
  qed
  have "filter positions_where (expanded files)
          = map (\<lambda>(d, a). expand_row d a)
              (filter (\<lambda>(d, a). ac_hex a \<noteq> None \<and> ac_lat a \<noteq> None \<and> ac_lon a \<noteq> None
                                  \<and> doc_now d \<noteq> None) (observations files))"
    by (simp add: expanded_def filter_map comp_def split_def positions_where_expand)
  then have l: "length (positions_relation st')
           = length (filter (\<lambda>(d, a). ac_hex a \<noteq> None \<and> ac_lat a \<noteq> None \<and> ac_lon a \<noteq> None
                                        \<and> doc_now d \<noteq> None) (observations files))"
    by (simp add: r length_positions_select)
  have c: "\<forall>p \<in> set (positions_relation st').
            (\<exists>(d, a) \<in> set (observations files). p = position_of (expand_row d a))
            \<and> pos_lat p \<noteq> None \<and> pos_lon p \<noteq> None"
  proof
    fix p assume "p \<in> set (positions_relation st')"
    then obtain x where x: "x \<in> set (expanded files)" "positions_where x" "p = position_of x"
      by (auto simp: r set_positions_select)
    from x(1) obtain d a where "(d, a) \<in> set (observations files)" "x = expand_row d a"
      by (auto simp: expanded_def)
    with x show "(\<exists>(d, a) \<in> set (observations files). p = position_of (expand_row d a))
            \<and> pos_lat p \<noteq> None \<and> pos_lon p \<noteq> None"
      by (auto simp: positions_where_def position_of_def)
  qed
  from a l c show ?thesis by blast
qed

theorem position_rows_exact_witness:
  "\<not> db_remove_raises no_faults
   \<and> prepare_data no_faults (Some dir_one) NoFile = (Inr ''OK'', Db db_one)
   \<and> observations (s1_loaded (Some dir_one))
       = [(doc_three, obs_flying), (doc_three, obs_ground), (doc_three, obs_no_lat)]
   \<and> position_of (expand_row doc_three obs_flying) \<in> set (positions_relation (Db db_one))
   \<and> position_of (expand_row doc_three obs_no_lat) \<notin> set (positions_relation (Db db_one))
   \<and> length (positions_relation (Db db_one)) = 2
   \<and> map pos_lat (positions_relation (Db db_one)) = [Some 1, Some (407 / 10)]"
proof -
  have h: "\<not> db_remove_raises no_faults" by (simp add: no_faults_def)
  have p1: "prepare_data no_faults (Some dir_one) NoFile = (Inr ''OK'', Db db_one)" by code_simp
  have o: "observations (s1_loaded (Some dir_one))
       = [(doc_three, obs_flying), (doc_three, obs_ground), (doc_three, obs_no_lat)]"
    by code_simp
  have l: "length (positions_relation (Db db_one)) = 2"
    by (simp add: positions_relation_def db_one_def)
  have f: "ac_hex obs_flying \<noteq> None \<and> ac_lat obs_flying \<noteq> None \<and> ac_lon obs_flying \<noteq> None
           \<and> doc_now doc_three \<noteq> None \<and> ac_lat obs_no_lat = None"
    by (simp add: obs_flying_def obs_no_lat_def doc_three_def)
  from position_rows_exact [OF h, of "Some dir_one" NoFile "Db db_one" "s1_loaded (Some dir_one)"] p1
  have "(\<forall>(d, a) \<in> set (observations (s1_loaded (Some dir_one))).
            (position_of (expand_row d a) \<in> set (positions_relation (Db db_one)))
              = (ac_hex a \<noteq> None \<and> ac_lat a \<noteq> None \<and> ac_lon a \<noteq> None \<and> doc_now d \<noteq> None))"
    by blast
  then have "position_of (expand_row doc_three obs_flying) \<in> set (positions_relation (Db db_one))"
     "position_of (expand_row doc_three obs_no_lat) \<notin> set (positions_relation (Db db_one))"
    using f unfolding o by simp_all
  moreover have "map pos_lat (positions_relation (Db db_one)) = [Some 1, Some (407 / 10)]"
    by (simp add: positions_relation_def db_one_def)
  ultimately show ?thesis using h p1 o l by blast
qed

subsection \<open>Files without an array, and text that is not a number\<close>







section \<open>Loader failures and coercion\<close>

text \<open>
  C3 (amended). If the store fails under one of the six statements of a load (s1 or s4,
  the old database file having been removed, the raw files readable), the load closes the
  connection and raises, and the database file keeps exactly what the statements before
  the failing one created: nothing when the failure is under the read of the raw files or
  the creation of Aircraft, Aircraft alone when it is under the creation of Position, both
  relations with the indexes created so far when it is under an index creation. Only in
  the first two cases is the result all-or-nothing.
\<close>

theorem failed_load_keeps_earlier_statements:
  assumes "\<not> db_remove_raises faults" "failing_statement faults = Some k" "k < 6"
    and "read_json files = Inr docs"
    and "files = s1_loaded raw_dir \<and> result = prepare_data faults raw_dir st
         \<or> s4_faults env = faults \<and> files = s4_loaded env b \<and> result = s4_prepare_data env b st"
  shows "result = (Inl IOException, Db (built_db files k))
       \<and> all_or_nothing (snd result) = (k \<le> 1)"
proof -
  have ne: "files \<noteq> []" using assms(4) by (rule read_json_not_Nil)
  have "result = load_files faults files NoFile"
    using assms(5) ne remove_db_ok[OF assms(1)]
    by (auto simp: prepare_data_cases s4_prepare_data_cases)
  then have "result = (Inl IOException, Db (built_db files k))"
    using load_files_fresh_fault[OF assms(4,2,3)] by simp
  then show ?thesis using all_or_nothing_built[OF assms(3)] by simp
qed

theorem failed_load_keeps_earlier_statements_witness:
  "\<not> db_remove_raises fault_at_positions
   \<and> failing_statement fault_at_positions = Some 2
   \<and> (2::nat) < 6
   \<and> read_json (s1_loaded (Some dir_one)) = Inr [doc_three]
   \<and> prepare_data fault_at_positions (Some dir_one) NoFile
       = (Inl IOException, Db (built_db (s1_loaded (Some dir_one)) 2))
   \<and> built_db (s1_loaded (Some dir_one)) 2 = db_aircraft_only"
proof -
  have h1: "\<not> db_remove_raises fault_at_positions" by (simp add: fault_at_positions_def)
  have h2: "failing_statement fault_at_positions = Some 2" by (simp add: fault_at_positions_def)
  have h3: "(2::nat) < 6" by simp
  have h4: "read_json (s1_loaded (Some dir_one)) = Inr [doc_three]" by code_simp
  have b: "built_db (s1_loaded (Some dir_one)) 2 = db_aircraft_only" by code_simp
  from failed_load_keeps_earlier_statements [OF h1 h2 h3 h4,
      of "Some dir_one" "prepare_data fault_at_positions (Some dir_one) NoFile" NoFile]
  have "prepare_data fault_at_positions (Some dir_one) NoFile
          = (Inl IOException, Db (built_db (s1_loaded (Some dir_one)) 2))"
    by simp
  with h1 h2 h3 h4 b show ?thesis by blast
qed

text \<open>
  C3 as stated fails: when the store fails under \<^verbatim>\<open>CREATE TABLE positions\<close> the load
  raises and leaves a database with the Aircraft relation and no Position relation.
\<close>

theorem failed_load_partial_counterexample:
  "prepare_data fault_at_positions (Some dir_one) NoFile = (Inl IOException, Db db_aircraft_only)
   \<and> \<not> all_or_nothing (Db db_aircraft_only)"
  by code_simp






section \<open>Query service\<close>

subsection \<open>Auxiliary facts\<close>



lemma non_null_map_Some: "non_null (map (\<lambda>x. Some (f x)) xs) = map f xs"
  by (induction xs) simp_all

lemma foldl_or: "foldl (\<or>) x xs = (x \<or> (\<exists>y \<in> set xs. y))"
  by (induction xs arbitrary: x) auto

lemma bool_or_emergency:
  "(case bool_or (map emergency_set sel) of None \<Rightarrow> False | Some b \<Rightarrow> b)
     = (\<exists>p \<in> set sel. pos_emergency p \<noteq> None \<and> pos_emergency p \<noteq> Some '''')"
proof -
  have e: "emergency_set = (\<lambda>p. Some (pos_emergency p \<noteq> None \<and> pos_emergency p \<noteq> Some ''''))"
    by (rule ext) (simp add: emergency_set_def split: option.splits)
  show ?thesis
    unfolding bool_or_def e non_null_map_Some
    by (cases sel) (auto simp: foldl_or)
qed

lemma statistics_had_emergency:
  "\<exists>s. get_aircraft_statistics st icao = Inr s
     \<and> had_emergency s
         = (\<exists>p \<in> set (positions_relation st).
              pos_icao p = Some icao \<and> pos_emergency p \<noteq> None \<and> pos_emergency p \<noteq> Some '''')"
proof (cases st)
  case NoFile
  then show ?thesis
    by (simp add: get_aircraft_statistics_def default_statistics_def positions_relation_def)
next
  case Corrupt
  then show ?thesis
    by (simp add: get_aircraft_statistics_def get_aircraft_statistics_query_def
          connect_read_only_def default_statistics_def positions_relation_def)
next
  case (Db db)
  show ?thesis
  proof (cases "tbl_positions db")
    case None
    with Db show ?thesis
      by (simp add: get_aircraft_statistics_def get_aircraft_statistics_query_def
            connect_read_only_def default_statistics_def positions_relation_def)
  next
    case (Some rows)
    have "(case bool_or (map emergency_set (filter (\<lambda>p. pos_icao p = Some icao) rows)) of
             None \<Rightarrow> False | Some b \<Rightarrow> b)
          = (\<exists>p \<in> set rows. pos_icao p = Some icao \<and> pos_emergency p \<noteq> None \<and> pos_emergency p \<noteq> Some '''')"
      unfolding bool_or_emergency by auto
    with Db Some show ?thesis
      by (simp add: get_aircraft_statistics_def get_aircraft_statistics_query_def
            connect_read_only_def positions_relation_def Let_def)
  qed
qed

lemma positions_select_emergency:
  "p \<in> set (positions_select (expanded files)) \<Longrightarrow> pos_emergency p = None"
  by (auto simp: set_positions_select expanded_def position_of_def expand_row_def)

subsection \<open>Claims\<close>



text \<open>
  C9 (amended). For every store and every icao, \<^verbatim>\<open>had_emergency\<close> of the statistics is
  true exactly when some Position row of that icao carries a non-null, non-empty emergency
  flag. The loader fills the flag of every Position row with NULL, whatever the
  observation's \<^verbatim>\<open>emergency\<close> field holds, so after a load of s1 that completes
  \<^verbatim>\<open>had_emergency\<close> is false for every icao.
\<close>

theorem had_emergency_iff_flag_and_loader_nulls_flag:
  "(\<exists>s. get_aircraft_statistics st icao = Inr s
      \<and> had_emergency s
          = (\<exists>p \<in> set (positions_relation st).
               pos_icao p = Some icao \<and> pos_emergency p \<noteq> None \<and> pos_emergency p \<noteq> Some ''''))
   \<and> (\<not> db_remove_raises faults \<longrightarrow> prepare_data faults raw_dir st0 = (Inr ''OK'', st') \<longrightarrow>
        (\<forall>p \<in> set (positions_relation st'). pos_emergency p = None)
        \<and> (\<exists>s. get_aircraft_statistics st' icao = Inr s \<and> \<not> had_emergency s))"
proof (intro conjI impI)
  show "\<exists>s. get_aircraft_statistics st icao = Inr s
      \<and> had_emergency s
          = (\<exists>p \<in> set (positions_relation st).
               pos_icao p = Some icao \<and> pos_emergency p \<noteq> None \<and> pos_emergency p \<noteq> Some '''')"
    by (rule statistics_had_emergency)
next
  assume r: "\<not> db_remove_raises faults" and p: "prepare_data faults raw_dir st0 = (Inr ''OK'', st')"
  have "(if s1_loaded raw_dir = [] then (Inr ''OK'', remove_db faults st0)
         else load_files faults (s1_loaded raw_dir) (remove_db faults st0)) = (Inr ''OK'', st')"
    using p by (simp add: prepare_data_cases)
  from loaded_relations[OF this r]
  have rel: "positions_relation st' = positions_select (expanded (s1_loaded raw_dir))" by simp
  then show n: "\<forall>p \<in> set (positions_relation st'). pos_emergency p = None"
    using positions_select_emergency by simp
  from statistics_had_emergency[of st' icao] n
  show "\<exists>s. get_aircraft_statistics st' icao = Inr s \<and> \<not> had_emergency s"
    by auto
qed

theorem had_emergency_iff_flag_and_loader_nulls_flag_witness:
  "get_aircraft_statistics (Db db_emergency) ''abc000''
      = Inr \<lparr>max_altitude_baro = None, max_ground_speed = None, had_emergency = True\<rparr>
   \<and> map pos_emergency (positions_relation (Db db_emergency)) = [Some ''7700'']
   \<and> \<not> db_remove_raises no_faults
   \<and> prepare_data no_faults (Some dir_one) NoFile = (Inr ''OK'', Db db_one)
   \<and> map pos_emergency (positions_relation (Db db_one)) = [None, None]
   \<and> get_aircraft_statistics (Db db_one) ''abc000''
      = Inr \<lparr>max_altitude_baro = None, max_ground_speed = None, had_emergency = False\<rparr>"
proof -
  have h: "\<not> db_remove_raises no_faults" by (simp add: no_faults_def)
  have p: "prepare_data no_faults (Some dir_one) NoFile = (Inr ''OK'', Db db_one)" by code_simp
  have e: "get_aircraft_statistics (Db db_emergency) ''abc000''
      = Inr \<lparr>max_altitude_baro = None, max_ground_speed = None, had_emergency = True\<rparr>"
    by code_simp
  have m: "map pos_emergency (positions_relation (Db db_emergency)) = [Some ''7700'']"
    "map pos_emergency (positions_relation (Db db_one)) = [None, None]"
    by (simp_all add: positions_relation_def db_emergency_def db_one_def)
  have s: "get_aircraft_statistics (Db db_one) ''abc000''
      = Inr \<lparr>max_altitude_baro = None, max_ground_speed = None, had_emergency = False\<rparr>"
    by code_simp
  from had_emergency_iff_flag_and_loader_nulls_flag
         [of "Db db_one" "''abc000''" no_faults "Some dir_one" NoFile "Db db_one"] h p
  have "\<exists>s. get_aircraft_statistics (Db db_one) ''abc000'' = Inr s \<and> \<not> had_emergency s"
    by blast
  with h p e m s show ?thesis by blast
qed

text \<open>
  C9 as stated fails: an observation with the emergency flag 7700 and all mandatory fields
  gets a Position row whose flag is NULL, and the statistics of its icao report no
  emergency.
\<close>

theorem emergency_flag_counterexample:
  "prepare_data no_faults (Some dir_one) NoFile = (Inr ''OK'', Db db_one)
   \<and> (doc_three, obs_ground) \<in> set (observations (s1_loaded (Some dir_one)))
   \<and> ac_hex obs_ground = Some ''abc000''
   \<and> ac_emergency obs_ground = Some ''7700''
   \<and> position_of (expand_row doc_three obs_ground) \<in> set (positions_relation (Db db_one))
   \<and> pos_emergency (position_of (expand_row doc_three obs_ground)) = None
   \<and> get_aircraft_statistics (Db db_one) ''abc000''
      = Inr \<lparr>max_altitude_baro = None, max_ground_speed = None, had_emergency = False\<rparr>"
  by code_simp

text \<open>
  C10. For every store state and every argument the three read endpoints return a value
  and do not raise; when the database file is missing, and whenever opening the database
  or running the query raises, \<^verbatim>\<open>list_aircraft\<close> and \<^verbatim>\<open>get_aircraft_position\<close> return
  the empty list and \<^verbatim>\<open>get_aircraft_statistics\<close> returns the all-null/false object.
\<close>

theorem queries_never_raise:
  "(\<exists>rows. list_aircraft st num_results page = Inr rows)
   \<and> (\<exists>rows. get_aircraft_position st icao num_results page = Inr rows)
   \<and> (\<exists>s. get_aircraft_statistics st icao = Inr s)
   \<and> (st = NoFile \<or> (\<exists>e. list_aircraft_query st num_results page = Inl e) \<longrightarrow>
        list_aircraft st num_results page = Inr [])
   \<and> (st = NoFile \<or> (\<exists>e. get_aircraft_position_query st icao num_results page = Inl e) \<longrightarrow>
        get_aircraft_position st icao num_results page = Inr [])
   \<and> (st = NoFile \<or> (\<exists>e. get_aircraft_statistics_query st icao = Inl e) \<longrightarrow>
        get_aircraft_statistics st icao = Inr default_statistics)"
proof (intro conjI impI)
  show "\<exists>rows. list_aircraft st num_results page = Inr rows"
    by (simp add: list_aircraft_def split: sum.splits)
  show "\<exists>rows. get_aircraft_position st icao num_results page = Inr rows"
    by (simp add: get_aircraft_position_def split: sum.splits)
  show "\<exists>s. get_aircraft_statistics st icao = Inr s"
    by (simp add: get_aircraft_statistics_def split: sum.splits prod.splits)
  show "list_aircraft st num_results page = Inr []"
    if "st = NoFile \<or> (\<exists>e. list_aircraft_query st num_results page = Inl e)"
    using that by (auto simp: list_aircraft_def)
  show "get_aircraft_position st icao num_results page = Inr []"
    if "st = NoFile \<or> (\<exists>e. get_aircraft_position_query st icao num_results page = Inl e)"
    using that by (auto simp: get_aircraft_position_def)
  show "get_aircraft_statistics st icao = Inr default_statistics"
    if "st = NoFile \<or> (\<exists>e. get_aircraft_statistics_query st icao = Inl e)"
    using that by (auto simp: get_aircraft_statistics_def)
qed

theorem queries_never_raise_witness:
  "list_aircraft_query Corrupt 100 0 = Inl IOException
   \<and> list_aircraft Corrupt 100 0 = Inr []
   \<and> get_aircraft_position_query Corrupt ''abc123'' 100 0 = Inl IOException
   \<and> get_aircraft_position Corrupt ''abc123'' 100 0 = Inr []
   \<and> get_aircraft_statistics_query Corrupt ''abc123'' = Inl IOException
   \<and> get_aircraft_statistics Corrupt ''abc123'' = Inr default_statistics"
proof -
  have q: "list_aircraft_query Corrupt 100 0 = Inl IOException"
    "get_aircraft_position_query Corrupt ''abc123'' 100 0 = Inl IOException"
    "get_aircraft_statistics_query Corrupt ''abc123'' = Inl IOException"
    by (simp_all add: list_aircraft_query_def get_aircraft_position_query_def
          get_aircraft_statistics_query_def connect_read_only_def)
  from queries_never_raise [of Corrupt 100 0 "''abc123''"] q
  show ?thesis by simp
qed

end
